theory Spec2Isabelle
  imports Complex_Main
begin

section \<open>Text: the operations of Python's str that the bulletin generator uses\<close>

text \<open>
  A Python \<open>str\<close> is modelled as a \<open>string\<close>, one \<open>char\<close> for one code point, so that
  \<open>length\<close> is Python's \<open>len\<close>. The character classes are those of ASCII: white space is
  what \<open>str.strip\<close>, \<open>str.split\<close> and the pattern \<open>\s\<close> take in that range (tab, line
  feed, vertical tab, form feed, carriage return, the four separators 0x1C..0x1F and the
  blank), digits are \<open>0\<close>..\<open>9\<close>, and \<open>str.lower\<close> maps \<open>A\<close>..\<open>Z\<close> to \<open>a\<close>..\<open>z\<close>. Every
  other code point is an ordinary character without case.
\<close>

definition isspace :: "char \<Rightarrow> bool" where
  "isspace c = (let n = (of_char c :: nat) in (9 \<le> n \<and> n \<le> 13) \<or> (28 \<le> n \<and> n \<le> 32))"

definition isdigit :: "char \<Rightarrow> bool" where
  "isdigit c = (let n = (of_char c :: nat) in 48 \<le> n \<and> n \<le> 57)"

definition isword :: "char \<Rightarrow> bool" where
  \<comment> \<open>the class \<open>\w\<close> of the module \<open>re\<close>\<close>
  "isword c = (let n = (of_char c :: nat) in
     (48 \<le> n \<and> n \<le> 57) \<or> (65 \<le> n \<and> n \<le> 90) \<or> (97 \<le> n \<and> n \<le> 122) \<or> n = 95)"

definition lower_char :: "char \<Rightarrow> char" where
  "lower_char c =
     (case map_of (zip ''ABCDEFGHIJKLMNOPQRSTUVWXYZ'' ''abcdefghijklmnopqrstuvwxyz'') c of
        None \<Rightarrow> c
      | Some l \<Rightarrow> l)"

definition lower :: "string \<Rightarrow> string" where
  "lower s = map lower_char s"

definition lstrip :: "string \<Rightarrow> string" where
  "lstrip s = dropWhile isspace s"

definition rstrip :: "string \<Rightarrow> string" where
  "rstrip s = rev (dropWhile isspace (rev s))"

definition strip :: "string \<Rightarrow> string" where
  "strip s = rstrip (lstrip s)"

fun startswith :: "string \<Rightarrow> string \<Rightarrow> bool" where
  "startswith s [] = True"
| "startswith [] (p # ps) = False"
| "startswith (c # cs) (p # ps) = (c = p \<and> startswith cs ps)"

definition endswith :: "string \<Rightarrow> string \<Rightarrow> bool" where
  "endswith s suf = startswith (rev s) (rev suf)"

fun split_from :: "string \<Rightarrow> string \<Rightarrow> string list" where
  "split_from cur [] = (if cur = [] then [] else [cur])"
| "split_from cur (c # cs) =
     (if isspace c then (if cur = [] then split_from [] cs else cur # split_from [] cs)
      else split_from (cur @ [c]) cs)"

definition split :: "string \<Rightarrow> string list" where
  \<comment> \<open>\<open>str.split()\<close> without argument: the maximal runs of non-space characters\<close>
  "split s = split_from [] s"

fun contains :: "string \<Rightarrow> string \<Rightarrow> bool" where
  \<comment> \<open>\<open>pat in s\<close>, and \<open>re.search\<close> for a pattern that is a literal\<close>
  "contains [] pat = (pat = [])"
| "contains (c # cs) pat = (startswith (c # cs) pat \<or> contains cs pat)"

section \<open>The lyric document and the line extractor\<close>

datatype py_error =
    DocumentError
  | IndexError
  | AttributeError string
  | UnboundLocalError string

text \<open>
  A document of python-docx is the list of its paragraphs, a paragraph the list of its runs,
  a run its text and its italic flag. The flag has three values, \<open>True\<close>, \<open>False\<close> and
  \<open>None\<close> (inherited), so it is a \<open>bool option\<close>. \<open>Document(docx_path)\<close> raises when the
  file cannot be opened or parsed, so what the extractor is given is an error or a document.
  An extracted line is the pair \<open>(text, italic)\<close>; the first revision stores the flag as
  it finds it, the third as \<open>run.italic is True\<close>.
\<close>

type_synonym docx_run = "string \<times> bool option"
type_synonym docx_paragraph = "docx_run list"
type_synonym document = "docx_paragraph list"
type_synonym docx_file = "py_error + document"
type_synonym line = "string \<times> bool option"





subsection \<open>main.py\<close>

definition py_or :: "bool option \<Rightarrow> bool option \<Rightarrow> bool option" where
  \<comment> \<open>\<open>a or b\<close> on \<open>True\<close>, \<open>False\<close> and \<open>None\<close>: \<open>a\<close> when it is true, \<open>b\<close> otherwise\<close>
  "py_or a b = (if a = Some True then a else b)"

fun main_runs :: "docx_run list \<Rightarrow> string list \<times> bool option \<Rightarrow> string list \<times> bool option" where
  \<comment> \<open>the loop over \<open>p.runs\<close>; the state is \<open>(paragraph_text, current_italic)\<close>\<close>
  "main_runs [] (paragraph_text, current_italic) = (paragraph_text, current_italic)"
| "main_runs ((text, italic) # runs) (paragraph_text, current_italic) =
     (if text \<noteq> [] then main_runs runs (paragraph_text @ [text], py_or current_italic italic)
      else main_runs runs (paragraph_text, current_italic))"

definition match_then_digit :: "string \<Rightarrow> string \<Rightarrow> bool" where
  \<comment> \<open>\<open>re.match\<close> of a literal followed by \<open>\d+\<close>: the literal, then a digit\<close>
  "match_then_digit lit s =
     (startswith s lit \<and> (case drop (length lit) s of [] \<Rightarrow> False | c # _ \<Rightarrow> isdigit c))"

definition main_is_marker :: "string \<Rightarrow> bool" where
  \<comment> \<open>\<open>re.match(r'Hymnal #\d+', t) or re.match(r'Verse \d+', t) or re.match(r'Chorus', t)\<close>\<close>
  "main_is_marker full_text =
     (match_then_digit ''Hymnal #'' full_text \<or> match_then_digit ''Verse '' full_text
      \<or> startswith full_text ''Chorus'')"

fun main_paragraphs :: "document \<Rightarrow> line list" where
  "main_paragraphs [] = []"
| "main_paragraphs (p # ps) =
     (case main_runs p ([], Some False) of (paragraph_text, current_italic) \<Rightarrow>
        if paragraph_text \<noteq> [] then
          (let full_text = rstrip (concat paragraph_text) in
            if strip full_text \<noteq> [] then
              (if \<not> main_is_marker full_text
               then (strip full_text, current_italic) # main_paragraphs ps
               else main_paragraphs ps)
            else main_paragraphs ps)
        else main_paragraphs ps)"

definition main_extract_body :: "docx_file \<Rightarrow> py_error + line list" where
  \<comment> \<open>the body of the \<open>try\<close>\<close>
  "main_extract_body file =
     (case file of Inl e \<Rightarrow> Inl e | Inr doc \<Rightarrow> Inr (main_paragraphs doc))"

definition main_extract_text_and_style :: "docx_file \<Rightarrow> line list" where
  \<comment> \<open>\<open>except Exception\<close>: the error is printed and the empty list returned\<close>
  "main_extract_text_and_style file =
     (case main_extract_body file of Inl e \<Rightarrow> [] | Inr lines \<Rightarrow> lines)"

subsection \<open>main3.py and main4.py\<close>









section \<open>Lines, the duplicate title and the footer\<close>

definition title_matches :: "line list \<Rightarrow> string \<Rightarrow> bool" where
  \<comment> \<open>\<open>lines[0][0].strip().lower() == title.strip().lower()\<close>\<close>
  "title_matches lines title = (lower (strip (fst (hd lines))) = lower (strip title))"

definition remove_duplicate_title :: "line list \<Rightarrow> string \<Rightarrow> line list" where
  \<comment> \<open>\<open>lines[1:] if len(lines) > 1 and lines[0][0].strip().lower() == title.strip().lower()
      else lines\<close>, the same expression in all four revisions\<close>
  "remove_duplicate_title lines title =
     (if 1 < length lines \<and> title_matches lines title then drop 1 lines else lines)"

subsection \<open>main.py: the last line as the reference line\<close>

definition main_split_footer :: "line list \<Rightarrow> line option \<times> line list" where
  \<comment> \<open>\<open>last_line_info\<close> and \<open>lines_for_content\<close> after lines 125 to 131\<close>
  "main_split_footer lines_for_content =
     (if lines_for_content \<noteq> [] then
        (let potential_last_line_text = strip (fst (last lines_for_content)) in
          if list_ex isdigit potential_last_line_text
             \<and> (CHR '','' \<in> set potential_last_line_text
                  \<or> CHR ''.'' \<in> set potential_last_line_text)
          then (Some (last lines_for_content), butlast lines_for_content)
          else (None, lines_for_content))
      else (None, lines_for_content))"

subsection \<open>main3.py: footer lines taken from the end\<close>

text \<open>
  The pattern of \<open>re.search\<close> is
  \<open>(\<copyright>|CCLI|Public Domain|Words and Music|[0-9]{4}|Translated|by\s+\w+)\<close> with
  \<open>re.IGNORECASE\<close>: the text is put in lower case and searched for the literals, for four
  digits in a row, and for \<open>by\<close>, white space and a word character. The copyright sign is
  the code point U+00A9.
\<close>

definition copyright_mark :: char where
  "copyright_mark = CHR 0xA9"

fun has_year :: "string \<Rightarrow> bool" where
  "has_year (a # b # c # d # rest) =
     ((isdigit a \<and> isdigit b \<and> isdigit c \<and> isdigit d) \<or> has_year (b # c # d # rest))"
| "has_year _ = False"

definition by_word_at :: "string \<Rightarrow> bool" where
  \<comment> \<open>\<open>by\s+\w+\<close> matches at the head of \<open>s\<close>\<close>
  "by_word_at s = (startswith s ''by'' \<and>
     (case drop 2 s of
        [] \<Rightarrow> False
      | w # rest \<Rightarrow> isspace w \<and>
          (case dropWhile isspace rest of [] \<Rightarrow> False | x # _ \<Rightarrow> isword x)))"

fun has_by_word :: "string \<Rightarrow> bool" where
  "has_by_word [] = False"
| "has_by_word (c # cs) = (by_word_at (c # cs) \<or> has_by_word cs)"

definition attribution :: "string \<Rightarrow> bool" where
  "attribution text = (let t = lower text in
     contains t [copyright_mark] \<or> contains t ''ccli'' \<or> contains t ''public domain''
     \<or> contains t ''words and music'' \<or> has_year t \<or> contains t ''translated''
     \<or> has_by_word t)"

definition blank :: "line \<Rightarrow> bool" where
  "blank l = (strip (fst l) = [])"

function footer_loop :: "line list \<Rightarrow> line list \<Rightarrow> line list \<times> line list" where
  \<comment> \<open>the \<open>while lines:\<close> loop of lines 209 to 217; the result is \<open>(lines, footer_lines)\<close>\<close>
  "footer_loop lines footer_lines =
     (if lines = [] then (lines, footer_lines)
      else let text = strip (fst (last lines)) in
        if text = [] then footer_loop (butlast lines) footer_lines
        else if attribution text then footer_loop (butlast lines) (last lines # footer_lines)
        else (lines, footer_lines))"
  by pat_completeness auto
termination
  by (relation "measure (\<lambda>(lines, footer_lines). length lines)") auto

declare footer_loop.simps [simp del]

definition extract_footer :: "line list \<Rightarrow> line list \<times> line list" where
  "extract_footer lines = footer_loop lines []"


section \<open>The slide deck\<close>

text \<open>
  A slide of python-pptx is the list of its shapes, in the order of the shape tree. A
  shape has its position and size in English Metric Units (914400 to the inch); the
  left edge is absent for a shape that has no attribute \<open>left\<close>, which is what
  \<open>hasattr(shape, "left")\<close> asks, and a left edge that is present is a number (a
  placeholder whose position is inherited, where python-pptx answers \<open>None\<close>, is outside
  the model). A text frame is the list of its paragraphs, a paragraph
  the list of its runs with its alignment and spacing, a run its text and font; a font
  property that was never set is \<open>None\<close>.
\<close>

datatype pp_align = LEFT

datatype mso_anchor = TOP

record pp_run =
  r_text :: string
  r_size :: "nat option"
  r_name :: "string option"
  r_bold :: "bool option"
  r_italic :: "bool option"

record pp_paragraph =
  p_runs :: "pp_run list"
  p_alignment :: "pp_align option"
  p_space_before :: "nat option"
  p_space_after :: "nat option"

record shape =
  sh_left :: "int option"
  sh_top :: int
  sh_width :: int
  sh_height :: int
  has_text_frame :: bool
  paragraphs :: "pp_paragraph list"
  word_wrap :: "bool option"
  vertical_anchor :: "mso_anchor option"

type_synonym slide = "shape list"
type_synonym presentation = "slide list"

definition Inches :: "rat \<Rightarrow> int" where
  \<comment> \<open>\<open>pptx.util.Inches\<close>: \<open>int(inches * 914400)\<close>\<close>
  "Inches x = \<lfloor>x * 914400\<rfloor>"

definition inches :: "int \<Rightarrow> rat" where
  \<comment> \<open>the property \<open>Length.inches\<close>: \<open>self / 914400\<close>\<close>
  "inches emu = of_int emu / 914400"

definition empty_paragraph :: pp_paragraph where
  "empty_paragraph =
     \<lparr>p_runs = [], p_alignment = None, p_space_before = None, p_space_after = None\<rparr>"

definition add_textbox :: "int \<Rightarrow> int \<Rightarrow> int \<Rightarrow> int \<Rightarrow> shape" where
  \<comment> \<open>the shape that \<open>slide.shapes.add_textbox\<close> appends: a text frame of one empty paragraph\<close>
  "add_textbox left top' width height =
     \<lparr>sh_left = Some left, sh_top = top', sh_width = width, sh_height = height,
      has_text_frame = True, paragraphs = [empty_paragraph], word_wrap = None,
      vertical_anchor = None\<rparr>"

subsection \<open>main.py: clear_side and add_song_content\<close>

definition main_to_remove :: "string \<Rightarrow> shape \<Rightarrow> bool" where
  \<comment> \<open>the condition of the list comprehension \<open>shapes_to_remove\<close>, with
      \<open>midpoint = Inches(5)\<close>: the left edge in inches against the midpoint in EMU\<close>
  "main_to_remove side shape =
     (let midpoint = Inches 5 in
       case sh_left shape of
         None \<Rightarrow> False
       | Some left \<Rightarrow> (side = ''left'' \<and> inches left < of_int midpoint)
                      \<or> (side = ''right'' \<and> inches left \<ge> of_int midpoint))"

definition main_clear_side :: "slide \<Rightarrow> string \<Rightarrow> slide" where
  "main_clear_side slide side = filter (\<lambda>shape. \<not> main_to_remove side shape) slide"

definition ends_terminal :: "string \<Rightarrow> bool" where
  \<comment> \<open>\<open>text.strip().endswith(('.', '!', '?')) and len(text.strip()) > 0\<close>\<close>
  "ends_terminal text =
     ((endswith (strip text) ''.'' \<or> endswith (strip text) ''!'' \<or> endswith (strip text) ''?'')
      \<and> 0 < length (strip text))"

definition ends_exclamation :: "string \<Rightarrow> bool" where
  \<comment> \<open>\<open>text.strip().endswith('!') and len(text.strip()) > 0\<close>\<close>
  "ends_exclamation text = (endswith (strip text) ''!'' \<and> 0 < length (strip text))"

definition short_line :: "string \<Rightarrow> bool" where
  \<comment> \<open>\<open>len(text.split()) <= 2 and not text.strip().endswith(':')
      and not text.strip().endswith(';')\<close>\<close>
  "short_line text =
     (length (split text) \<le> 2 \<and> \<not> endswith (strip text) '':''
      \<and> \<not> endswith (strip text) '';'')"

definition main_lyrics_run :: "nat \<Rightarrow> nat \<times> line \<Rightarrow> pp_run" where
  \<comment> \<open>the run of line \<open>k\<close> of a verse of \<open>n\<close> lines\<close>
  "main_lyrics_run n kl = (case kl of (k, (line_text, line_italic)) \<Rightarrow>
     \<lparr>r_text = (if int k < int n - 1 then line_text @ [CHR 0x0A] else line_text),
      r_size = Some 11, r_name = Some ''Montserrat'', r_bold = None,
      r_italic = line_italic\<rparr>)"

definition main_lyrics_paragraph :: "line list \<Rightarrow> pp_paragraph" where
  "main_lyrics_paragraph current_verse =
     \<lparr>p_runs = map (main_lyrics_run (length current_verse)) (enumerate 0 current_verse),
      p_alignment = Some LEFT, p_space_before = Some 0, p_space_after = Some 0\<rparr>"

definition main_space_paragraph :: pp_paragraph where
  "main_space_paragraph =
     \<lparr>p_runs = [], p_alignment = None, p_space_before = Some 12, p_space_after = Some 0\<rparr>"

fun main_verse_loop ::
  "nat \<Rightarrow> line option \<Rightarrow> nat \<Rightarrow> line list \<Rightarrow> line list \<Rightarrow> pp_paragraph list
    \<Rightarrow> pp_paragraph list" where
  \<comment> \<open>the loop of lines 133 to 166 over \<open>enumerate(lines_for_content)\<close>: \<open>n\<close> is
      \<open>len(lines_for_content)\<close>, \<open>i\<close> the index of the next line, the state is
      \<open>current_verse\<close> and the paragraphs of the text frame\<close>
  "main_verse_loop n last_line_info i [] current_verse tf_content = tf_content"
| "main_verse_loop n last_line_info i ((text, is_italic) # rest) current_verse tf_content =
     (let current_verse = current_verse @ [(text, is_italic)];
          should_break_verse =
            (if int i < int n - 1 then ends_terminal text \<or> short_line text
             else if int i = int n - 1 then True
             else False)
      in if should_break_verse then
           (let tf_content = tf_content @ [main_lyrics_paragraph current_verse];
                tf_content =
                  (if ends_exclamation text \<or> short_line text then
                     (if int i < int n - 1 \<or> last_line_info = None
                      then tf_content @ [main_space_paragraph] else tf_content)
                   else tf_content)
            in main_verse_loop n last_line_info (i + 1) rest [] tf_content)
         else main_verse_loop n last_line_info (i + 1) rest current_verse tf_content)"

definition main_title_paragraph :: "string \<Rightarrow> pp_paragraph" where
  "main_title_paragraph title =
     \<lparr>p_runs = [\<lparr>r_text = title, r_size = Some 11, r_name = Some ''Montserrat'',
                 r_bold = Some True, r_italic = None\<rparr>],
      p_alignment = Some LEFT, p_space_before = None, p_space_after = None\<rparr>"

definition main_ref_paragraph :: "line \<Rightarrow> pp_paragraph" where
  "main_ref_paragraph last_line_info =
     \<lparr>p_runs = [\<lparr>r_text = fst last_line_info, r_size = Some 5, r_name = Some ''Montserrat'',
                 r_bold = None, r_italic = snd last_line_info\<rparr>],
      p_alignment = Some LEFT, p_space_before = Some 12, p_space_after = Some 0\<rparr>"

definition main_box :: "string \<Rightarrow> (int \<times> int \<times> int) option" where
  \<comment> \<open>\<open>(left, width, top)\<close> after the \<open>if\<close> and \<open>elif\<close> on the side; with any other side the
      three names stay unbound\<close>
  "main_box side =
     (if side = ''left'' then Some (Inches (1 / 2), Inches (9 / 2), Inches (1 / 2))
      else if side = ''right'' then Some (Inches (26 / 5), Inches (9 / 2), Inches (1 / 2))
      else None)"

definition main_add_song_content ::
  "slide \<Rightarrow> string \<Rightarrow> string \<Rightarrow> line list \<Rightarrow> nat \<Rightarrow> py_error + slide" where
  "main_add_song_content slide side title lines slide_index =
     (let slide = main_clear_side slide side in
      case main_box side of
        None \<Rightarrow> Inl (UnboundLocalError ''left'')
      | Some (left, width, top') \<Rightarrow>
          (let content_box = (add_textbox left top' width (Inches (57 / 10)))\<lparr>word_wrap := Some True\<rparr>;
               tf_content = paragraphs content_box @ [main_title_paragraph title]
           in if lines \<noteq> [] then
                (let lines_for_content = remove_duplicate_title lines title in
                 case main_split_footer lines_for_content of
                   (last_line_info, lines_for_content) \<Rightarrow>
                     (let tf_content =
                            main_verse_loop (length lines_for_content) last_line_info 0
                              lines_for_content [] tf_content;
                          tf_content =
                            (case last_line_info of
                               None \<Rightarrow> tf_content
                             | Some info \<Rightarrow> tf_content @ [main_ref_paragraph info])
                      in Inr (slide @ [content_box\<lparr>paragraphs := tf_content\<rparr>])))
              else Inl (UnboundLocalError ''last_line_info'')))"

subsection \<open>main2.py: clear_side and add_song_content\<close>

definition main2_to_remove :: "string \<Rightarrow> shape \<Rightarrow> bool" where
  \<comment> \<open>\<open>shape.left\<close> and \<open>midpoint\<close> both in EMU; the same in main3.py and main4.py\<close>
  "main2_to_remove side shape =
     (let midpoint = Inches 5 in
       case sh_left shape of
         None \<Rightarrow> False
       | Some left \<Rightarrow> (side = ''left'' \<and> left < midpoint) \<or> (side = ''right'' \<and> left \<ge> midpoint))"

definition main2_clear_side :: "slide \<Rightarrow> string \<Rightarrow> slide" where
  "main2_clear_side slide side = filter (\<lambda>shape. \<not> main2_to_remove side shape) slide"

definition main2_run :: "string \<Rightarrow> nat \<Rightarrow> bool option \<Rightarrow> bool option \<Rightarrow> pp_run" where
  "main2_run text pt bold italic =
     \<lparr>r_text = text, r_size = Some pt, r_name = Some ''Montserrat'', r_bold = bold,
      r_italic = italic\<rparr>"

definition main2_line_paragraph :: "line \<Rightarrow> pp_paragraph" where
  "main2_line_paragraph l =
     \<lparr>p_runs = [main2_run (fst l) 11 None (snd l)], p_alignment = Some LEFT,
      p_space_before = None, p_space_after = None\<rparr>"

definition main2_text_frame :: "string \<Rightarrow> line list \<Rightarrow> pp_paragraph list" where
  \<comment> \<open>the paragraphs of the text frame after lines 112 to 144\<close>
  "main2_text_frame title lines =
     (let p_title = \<lparr>p_runs = [main2_run title 11 (Some True) None], p_alignment = Some LEFT,
                     p_space_before = None, p_space_after = None\<rparr>;
          lines = remove_duplicate_title lines title;
          last_line_info =
            (if lines \<noteq> [] \<and> list_ex isdigit (fst (last lines))
                \<and> (CHR '','' \<in> set (fst (last lines)) \<or> CHR ''.'' \<in> set (fst (last lines)))
             then Some (last lines) else None);
          lines = (if last_line_info \<noteq> None then butlast lines else lines)
      in [p_title] @ map main2_line_paragraph lines
         @ (case last_line_info of
              None \<Rightarrow> []
            | Some info \<Rightarrow>
                [\<lparr>p_runs = [main2_run (fst info) 5 None (snd info)], p_alignment = Some LEFT,
                  p_space_before = Some 12, p_space_after = Some 0\<rparr>]))"

definition main2_add_song_content :: "slide \<Rightarrow> string \<Rightarrow> string \<Rightarrow> line list \<Rightarrow> slide" where
  "main2_add_song_content slide side title lines =
     (let top' = Inches (1 / 10); width = Inches (24 / 5); height = Inches 7;
          left = Inches (if side = ''left'' then 1 / 10 else 5);
          slide = main2_clear_side slide side;
          box = (add_textbox left top' width height)
                  \<lparr>paragraphs := main2_text_frame title lines, word_wrap := Some True,
                   vertical_anchor := Some TOP\<rparr>
      in slide @ [box])"

subsection \<open>main3.py: update_order_of_service\<close>























subsection \<open>main.py: generate_bulletin\<close>

text \<open>
  The lookup in the lyrics folder, the download and the conversion of a legacy document are
  outside the engine. They are the parameter \<open>fetch\<close>: for a song name, \<open>None\<close> when no valid
  file was found (\<open>local_path\<close> is \<open>None\<close>), and otherwise what opening the local file gives.
  The state is the presentation; writing it to disk is not modelled.
\<close>

record entry =
  e_slide_index :: nat
  e_side :: string
  e_song_index :: nat

definition SONG_SLIDE_MAP :: "entry list" where
  "SONG_SLIDE_MAP =
     [\<lparr>e_slide_index = 3, e_side = ''left'', e_song_index = 1\<rparr>,
      \<lparr>e_slide_index = 3, e_side = ''right'', e_song_index = 2\<rparr>,
      \<lparr>e_slide_index = 2, e_side = ''left'', e_song_index = 3\<rparr>,
      \<lparr>e_slide_index = 1, e_side = ''right'', e_song_index = 4\<rparr>,
      \<lparr>e_slide_index = 2, e_side = ''right'', e_song_index = 0\<rparr>]"

definition main_process_entry ::
  "(string \<Rightarrow> docx_file option) \<Rightarrow> string list \<Rightarrow> presentation \<Rightarrow> entry
    \<Rightarrow> py_error + presentation" where
  \<comment> \<open>one pass of the loop over \<open>SONG_SLIDE_MAP\<close>; every \<open>continue\<close> leaves the presentation
      as it is\<close>
  "main_process_entry fetch song_order prs e =
     (if length prs \<le> e_slide_index e then Inr prs
      else if length song_order \<le> e_song_index e then Inr prs
      else
        (let side = e_side e; song_name = song_order ! e_song_index e in
         case fetch song_name of
           None \<Rightarrow> Inr prs
         | Some local_path \<Rightarrow>
             (let lines = main_extract_text_and_style local_path in
              if lines \<noteq> [] then
                (let slide = main_clear_side (prs ! e_slide_index e) side in
                 case main_add_song_content slide side song_name lines (e_slide_index e) of
                   Inl err \<Rightarrow> Inl err
                 | Inr slide \<Rightarrow> Inr (prs[e_slide_index e := slide]))
              else Inr prs)))"

fun main_entries ::
  "(string \<Rightarrow> docx_file option) \<Rightarrow> string list \<Rightarrow> presentation \<Rightarrow> entry list
    \<Rightarrow> py_error + presentation" where
  "main_entries fetch song_order prs [] = Inr prs"
| "main_entries fetch song_order prs (e # es) =
     (case main_process_entry fetch song_order prs e of
        Inl err \<Rightarrow> Inl err
      | Inr prs \<Rightarrow> main_entries fetch song_order prs es)"

definition main_generate_bulletin ::
  "bool \<Rightarrow> (string \<Rightarrow> docx_file option) \<Rightarrow> string list \<Rightarrow> presentation
    \<Rightarrow> py_error + presentation" where
  \<comment> \<open>\<open>lyrics_folder\<close>: whether the lyrics folder was found\<close>
  "main_generate_bulletin lyrics_folder fetch song_order prs =
     (if \<not> lyrics_folder then Inr prs
      else main_entries fetch song_order prs SONG_SLIDE_MAP)"

section \<open>Segments, as the specification words them\<close>






section \<open>Duplicate-title suppression\<close>

lemma remove_duplicate_title_single:
  "remove_duplicate_title [l] title = [l]"
  by (simp add: remove_duplicate_title_def)




section \<open>Footer extraction\<close>







text \<open>
  The loop of main3.py cuts the list in two: what it returns as \<open>lines\<close> is a prefix, the
  footer is the rest without its blank lines, every line of the rest is blank or an
  attribution, and the prefix is empty or ends in a line that is neither.
\<close>

lemma footer_loop_tail:
  "footer_loop lines acc = (body, footer) \<Longrightarrow>
   \<exists>tail. lines = body @ tail
      \<and> footer = filter (\<lambda>l. \<not> blank l) tail @ acc
      \<and> list_all (\<lambda>l. blank l \<or> attribution (strip (fst l))) tail
      \<and> (body = [] \<or> (\<not> blank (last body) \<and> \<not> attribution (strip (fst (last body)))))"
proof (induction lines acc arbitrary: body footer rule: footer_loop.induct)
  case (1 lines footer_lines)
  show ?case
  proof (cases "lines = []")
    case True
    with "1.prems" show ?thesis by (simp add: footer_loop.simps)
  next
    case False
    then have split: "lines = butlast lines @ [last lines]" by simp
    show ?thesis
    proof (cases "strip (fst (last lines)) = []")
      case True
      with False "1.prems" have "footer_loop (butlast lines) footer_lines = (body, footer)"
        by (simp add: footer_loop.simps[of lines])
      from "1.IH"(1)[OF False refl True this] obtain tail where
        t: "butlast lines = body @ tail" "footer = filter (\<lambda>l. \<not> blank l) tail @ footer_lines"
           "list_all (\<lambda>l. blank l \<or> attribution (strip (fst l))) tail"
           "body = [] \<or> (\<not> blank (last body) \<and> \<not> attribution (strip (fst (last body))))"
        by blast
      have "lines = body @ (tail @ [last lines])" using split t(1) by simp
      moreover have "footer = filter (\<lambda>l. \<not> blank l) (tail @ [last lines]) @ footer_lines"
        using t(2) True by (simp add: blank_def)
      moreover have "list_all (\<lambda>l. blank l \<or> attribution (strip (fst l))) (tail @ [last lines])"
        using t(3) True by (simp add: blank_def)
      ultimately show ?thesis using t(4) by blast
    next
      case nb: False
      show ?thesis
      proof (cases "attribution (strip (fst (last lines)))")
        case True
        with False nb "1.prems"
        have "footer_loop (butlast lines) (last lines # footer_lines) = (body, footer)"
          by (simp add: footer_loop.simps[of lines])
        from "1.IH"(2)[OF False refl nb True this] obtain tail where
          t: "butlast lines = body @ tail"
             "footer = filter (\<lambda>l. \<not> blank l) tail @ last lines # footer_lines"
             "list_all (\<lambda>l. blank l \<or> attribution (strip (fst l))) tail"
             "body = [] \<or> (\<not> blank (last body) \<and> \<not> attribution (strip (fst (last body))))"
          by blast
        have "lines = body @ (tail @ [last lines])" using split t(1) by simp
        moreover have "footer = filter (\<lambda>l. \<not> blank l) (tail @ [last lines]) @ footer_lines"
          using t(2) nb by (simp add: blank_def)
        moreover have "list_all (\<lambda>l. blank l \<or> attribution (strip (fst l))) (tail @ [last lines])"
          using t(3) True by simp
        ultimately show ?thesis using t(4) by blast
      next
        case na: False
        with False nb "1.prems" have "body = lines" "footer = footer_lines"
          by (simp_all add: footer_loop.simps[of lines])
        then show ?thesis using False nb na by (auto simp: blank_def)
      qed
    qed
  qed
qed




text \<open>
  Claim C7, as stated, at a line stream with a blank line before the footer (the extractor
  of main3.py emits one such line for every empty paragraph): the blank line is in neither
  part, and body and footer together are not the original list.
\<close>

theorem C7_blank_line_lost:
  "extract_footer [(''Holy'', Some False), ('''', Some False), (''CCLI 123'', Some False)]
     = ([(''Holy'', Some False)], [(''CCLI 123'', Some False)])
   \<and> [(''Holy'', Some False)] @ [(''CCLI 123'', Some False)]
     \<noteq> [(''Holy'', Some False), ('''', Some False), (''CCLI 123'', Some False)]"
  by code_simp

text \<open>
  Claim C7, amended: the body that remains is a prefix of the line stream, and the footer
  is, in order, the rest of the stream without its blank lines; so body and footer together
  are the original stream without the blank lines met during the backward scan, and they
  are the original stream exactly when it has no blank line.
\<close>

theorem C7_footer_reconstruction:
  assumes "extract_footer lines = (body, footer)"
  shows "body = take (length body) lines
     \<and> footer = filter (\<lambda>l. \<not> blank l) (drop (length body) lines)
     \<and> (list_all (\<lambda>l. \<not> blank l) lines \<longrightarrow> body @ footer = lines)"
proof -
  from assms have "footer_loop lines [] = (body, footer)" by (simp add: extract_footer_def)
  from footer_loop_tail[OF this] obtain tail where
    t: "lines = body @ tail" "footer = filter (\<lambda>l. \<not> blank l) tail" by auto
  have "list_all (\<lambda>l. \<not> blank l) lines \<Longrightarrow> filter (\<lambda>l. \<not> blank l) tail = tail"
    using t(1) by (simp add: list_all_iff)
  with t show ?thesis by auto
qed

theorem C7_footer_reconstruction_witness:
  "extract_footer
       [(''Was blind, but now I see.'', Some False), (''Words by John Newton, 1779'', Some False)]
     = ([(''Was blind, but now I see.'', Some False)], [(''Words by John Newton, 1779'', Some False)])
   \<and> list_all (\<lambda>l. \<not> blank l)
        [(''Was blind, but now I see.'', Some False), (''Words by John Newton, 1779'', Some False)]
   \<and> [(''Was blind, but now I see.'', Some False)] @ [(''Words by John Newton, 1779'', Some False)]
     = [(''Was blind, but now I see.'', Some False), (''Words by John Newton, 1779'', Some False)]"
proof -
  have e: "extract_footer
       [(''Was blind, but now I see.'', Some False), (''Words by John Newton, 1779'', Some False)]
     = ([(''Was blind, but now I see.'', Some False)], [(''Words by John Newton, 1779'', Some False)])"
    by code_simp
  have b: "list_all (\<lambda>l. \<not> blank l)
        [(''Was blind, but now I see.'', Some False), (''Words by John Newton, 1779'', Some False)]"
    by code_simp
  show ?thesis using C7_footer_reconstruction[OF e] e b by simp
qed

section \<open>Structural markers\<close>













text \<open>
  The first revision matches the patterns as they are written, upper and lower case
  distinguished, so it keeps a label in lower case; the later revisions pass
  \<open>re.IGNORECASE\<close>.
\<close>

lemma main_lower_case_marker_kept:
  "main_extract_text_and_style (Inr [[(''chorus'', None)]]) = [(''chorus'', None)]"
  by code_simp



section \<open>Clearing one side of a slide\<close>

text \<open>
  In main2.py, main3.py and main4.py the left edge and the midpoint are both in EMU, and
  clearing is scoped to the side: what is removed from the left side are the shapes with a
  left edge below the midpoint, from the right side those at or beyond it; a shape without a
  left edge stays, and so does every shape when the side is neither \<open>left\<close> nor \<open>right\<close>.
\<close>

lemma main2_clear_side_left:
  "main2_clear_side slide ''left''
     = filter (\<lambda>shape. case sh_left shape of None \<Rightarrow> True | Some l \<Rightarrow> Inches 5 \<le> l) slide"
  unfolding main2_clear_side_def main2_to_remove_def
  by (rule filter_cong) (auto simp: Let_def split: option.splits)

lemma main2_clear_side_right:
  "main2_clear_side slide ''right''
     = filter (\<lambda>shape. case sh_left shape of None \<Rightarrow> True | Some l \<Rightarrow> l < Inches 5) slide"
  unfolding main2_clear_side_def main2_to_remove_def
  by (rule filter_cong) (auto simp: Let_def split: option.splits)

lemma main2_clear_side_scoped:
  assumes "shape \<in> set slide" and "sh_left shape = Some l"
  shows "Inches 5 \<le> l \<Longrightarrow> shape \<in> set (main2_clear_side slide ''left'')"
    and "l < Inches 5 \<Longrightarrow> shape \<in> set (main2_clear_side slide ''right'')"
  using assms by (simp_all add: main2_clear_side_left main2_clear_side_right)

text \<open>
  Claim C1 on main.py: a shape whose left edge is at six inches, beyond the midpoint of
  five inches, is removed when the left side is cleared. The comparison is between the
  left edge in inches (6) and the midpoint in EMU (4572000).
\<close>

theorem C1_main_clear_left_removes_right_shape:
  "Inches 5 \<le> 5486400
   \<and> sh_left (add_textbox 5486400 0 914400 914400) = Some 5486400
   \<and> main_clear_side [add_textbox 5486400 0 914400 914400] ''left'' = []
   \<and> main2_clear_side [add_textbox 5486400 0 914400 914400] ''left''
       = [add_textbox 5486400 0 914400 914400]"
  by (simp add: main_clear_side_def main_to_remove_def main2_clear_side_def main2_to_remove_def
      add_textbox_def Inches_def inches_def)

section \<open>Clear-then-compose, twice\<close>

lemma main2_box_removed:
  assumes "side = ''left'' \<or> side = ''right''"
  shows "main2_to_remove side
     ((add_textbox (Inches (if side = ''left'' then 1 / 10 else 5)) t w h)
        \<lparr>paragraphs := ps, word_wrap := ww, vertical_anchor := va\<rparr>)"
  using assms by (auto simp: main2_to_remove_def add_textbox_def Inches_def)

text \<open>
  In main2.py the composition is idempotent on the two sides: the second call removes the
  container of the first and nothing else, and puts an equal container in its place.
\<close>

lemma main2_add_song_content_idempotent:
  assumes "side = ''left'' \<or> side = ''right''"
  shows "main2_add_song_content (main2_add_song_content slide side title lines) side title lines
     = main2_add_song_content slide side title lines"
  using main2_box_removed[OF assms]
  by (simp add: main2_add_song_content_def Let_def main2_clear_side_def)

text \<open>
  Claim C6 on main.py, right side, starting from an empty slide: the left edge of the new
  container is at 5.2 inches, \<open>clear_side\<close> compares 5.2 with 4572000 and removes nothing,
  and the second call leaves two containers on the slide.
\<close>

theorem C6_main_right_side_accumulates:
  "main_add_song_content [] ''right'' ''Christ Arose'' [(''Low in the grave He lay'', None)] 2
     = Inr [(add_textbox 4754880 457200 4114800 5212080)
             \<lparr>paragraphs := [empty_paragraph, main_title_paragraph ''Christ Arose'',
                 main_lyrics_paragraph [(''Low in the grave He lay'', None)]],
               word_wrap := Some True\<rparr>]
   \<and> main_add_song_content
        [(add_textbox 4754880 457200 4114800 5212080)
             \<lparr>paragraphs := [empty_paragraph, main_title_paragraph ''Christ Arose'',
                 main_lyrics_paragraph [(''Low in the grave He lay'', None)]],
               word_wrap := Some True\<rparr>]
        ''right'' ''Christ Arose'' [(''Low in the grave He lay'', None)] 2
     = Inr [(add_textbox 4754880 457200 4114800 5212080)
             \<lparr>paragraphs := [empty_paragraph, main_title_paragraph ''Christ Arose'',
                 main_lyrics_paragraph [(''Low in the grave He lay'', None)]],
               word_wrap := Some True\<rparr>,
            (add_textbox 4754880 457200 4114800 5212080)
             \<lparr>paragraphs := [empty_paragraph, main_title_paragraph ''Christ Arose'',
                 main_lyrics_paragraph [(''Low in the grave He lay'', None)]],
               word_wrap := Some True\<rparr>]"
  by code_simp

section \<open>Verse boundaries\<close>




section \<open>Extraction failures and the empty line list\<close>

text \<open>
  Claim C8: when the document cannot be opened or parsed the body of the extractor raises,
  the handler turns the exception into the empty line list, and nothing is raised to the
  caller (the extractor is a total function to line lists). When extraction yields no
  lines for a song, the presentation after the pass is the presentation before it, so the
  side is neither cleared nor given a container, and the loop goes on with the entries
  that follow.
\<close>

theorem C8_extraction_failure:
  "main_extract_body (Inl err) = Inl err
   \<and> main_extract_text_and_style (Inl err) = []
   \<and> (fetch (song_order ! e_song_index e) = Some local_path
        \<and> main_extract_text_and_style local_path = []
      \<longrightarrow> main_process_entry fetch song_order prs e = Inr prs
        \<and> main_entries fetch song_order prs (e # es) = main_entries fetch song_order prs es)"
  by (simp add: main_extract_text_and_style_def main_extract_body_def main_process_entry_def
      Let_def)

theorem C8_extraction_failure_witness:
  "main_extract_text_and_style (Inl DocumentError) = []
   \<and> main_process_entry (\<lambda>name. Some (Inl DocumentError)) [''Because He Lives'']
        [[], [], [add_textbox 0 0 1 1]] \<lparr>e_slide_index = 2, e_side = ''right'', e_song_index = 0\<rparr>
      = Inr [[], [], [add_textbox 0 0 1 1]]"
  using C8_extraction_failure
    [of DocumentError "\<lambda>name. Some (Inl DocumentError)" "[''Because He Lives'']"
        "\<lparr>e_slide_index = 2, e_side = ''right'', e_song_index = 0\<rparr>" "Inl DocumentError"
        "[[], [], [add_textbox 0 0 1 1]]" "[]"]
  by simp

section \<open>The reference line of the first revision\<close>

lemma main_add_song_content_lines:
  "lines \<noteq> [] \<Longrightarrow>
     main_add_song_content slide side title lines i \<noteq> Inl (UnboundLocalError ''last_line_info'')"
  by (auto simp: main_add_song_content_def Let_def split: option.splits prod.splits)

lemma main_process_entry_defined:
  "main_process_entry fetch song_order prs e \<noteq> Inl (UnboundLocalError ''last_line_info'')"
  using main_add_song_content_lines
  by (auto simp: main_process_entry_def Let_def split: option.splits sum.splits)

lemma main_entries_defined:
  "main_entries fetch song_order prs es \<noteq> Inl (UnboundLocalError ''last_line_info'')"
proof (induction es arbitrary: prs)
  case Nil
  then show ?case by simp
next
  case (Cons e es)
  then show ?case
    using main_process_entry_defined[of fetch song_order prs e]
    by (auto split: sum.splits)
qed

text \<open>
  Claim C10: in main.py \<open>last_line_info\<close> is assigned only under \<open>if lines:\<close>, so the
  composer called with no lines ends in the error of an unbound local variable; called
  with a non-empty list it never does, and \<open>generate_bulletin\<close>, which composes only when
  extraction gave lines, never meets that error.
\<close>

theorem C10_last_line_info_defined:
  "(side = ''left'' \<or> side = ''right'' \<longrightarrow>
      main_add_song_content slide side title [] i = Inl (UnboundLocalError ''last_line_info''))
   \<and> (lines \<noteq> [] \<longrightarrow>
      main_add_song_content slide side title lines i \<noteq> Inl (UnboundLocalError ''last_line_info''))
   \<and> main_process_entry fetch song_order prs e \<noteq> Inl (UnboundLocalError ''last_line_info'')
   \<and> main_generate_bulletin lyrics_folder fetch song_order prs
        \<noteq> Inl (UnboundLocalError ''last_line_info'')"
proof (intro conjI impI)
  assume "side = ''left'' \<or> side = ''right''"
  then show "main_add_song_content slide side title [] i = Inl (UnboundLocalError ''last_line_info'')"
    by (auto simp: main_add_song_content_def main_box_def Let_def)
next
  assume "lines \<noteq> []"
  then show "main_add_song_content slide side title lines i
      \<noteq> Inl (UnboundLocalError ''last_line_info'')"
    by (rule main_add_song_content_lines)
next
  show "main_process_entry fetch song_order prs e \<noteq> Inl (UnboundLocalError ''last_line_info'')"
    by (rule main_process_entry_defined)
next
  show "main_generate_bulletin lyrics_folder fetch song_order prs
        \<noteq> Inl (UnboundLocalError ''last_line_info'')"
    by (simp add: main_generate_bulletin_def main_entries_defined)
qed


theorem C10_last_line_info_defined_witness:
  "main_add_song_content [] ''left'' ''Christ Arose'' [] 2
     = Inl (UnboundLocalError ''last_line_info'')
   \<and> [(''Low in the grave He lay'', None)] \<noteq> ([] :: line list)
   \<and> main_add_song_content [] ''left'' ''Christ Arose'' [(''Low in the grave He lay'', None)] 2
     \<noteq> Inl (UnboundLocalError ''last_line_info'')"
  using C10_last_line_info_defined
    [of "''left''" "[]" "''Christ Arose''" 2 "[(''Low in the grave He lay'', None)]"]
  by simp

section \<open>Hymn titles in the order of service\<close>























end
